theory Spec2Isabelle
  imports Complex_Main
begin

section \<open>Spike extraction pipeline of load\_intan\_rhd\_format\_spike\_extraction.py\<close>

text \<open>
  The function \<open>extract_analyze_and_plot_spikes\<close> is embedded stage by stage.
  Samples, times and rates are Python floats; they are modelled as \<^typ>\<open>real\<close>,
  so rounding, NaN and infinities are outside the model. Integers are Python's
  unbounded ints (\<^typ>\<open>int\<close>). Every \<open>raise\<close> is a value \<open>Inl e\<close>, every
  \<open>print\<close> is an event appended to a log, and the bare \<open>return\<close> of the
  missing-key guard is the result \<open>Inr None\<close>.

  The calls into numpy, scipy and scikit-learn (\<open>np.max\<close>, \<open>np.linspace\<close>,
  \<open>np.array\<close>, slicing, \<open>find_peaks\<close>, \<open>PCA\<close>) are modelled from the documented
  behaviour of those libraries; each such definition says which library function it
  stands for.
\<close>

subsection \<open>Errors and printed output\<close>

datatype origin =
    SampleRateNone          \<comment> \<open>line 80, the explicit raise\<close>
  | MaxOfEmpty              \<comment> \<open>np.max of a zero-size array\<close>
  | LinspaceNegative        \<comment> \<open>np.linspace with a negative number of samples\<close>
  | Inhomogeneous           \<comment> \<open>np.array of rows of different lengths\<close>
  | PCAExpected2D           \<comment> \<open>PCA input validation: array is not 2-D\<close>
  | PCANoFeatures           \<comment> \<open>PCA input validation: zero columns\<close>
  | PCANComponents          \<comment> \<open>PCA: n\_components outside [0, min(rows, columns)]\<close>

datatype exn = KeyError string | IndexError | ValueError origin

datatype event =
    AmplifierDataNotFound                 \<comment> \<open>line 72\<close>
  | UsingThreshold real real real         \<comment> \<open>line 91: threshold, ratio, max amplitude\<close>
  | Detected nat real real                \<comment> \<open>line 99: count, min\_height, max\_height\<close>
  | ExplainedVariance "real list"         \<comment> \<open>line 115\<close>

subsection \<open>The upstream result dictionary\<close>

text \<open>
  Only three keys of \<open>result\<close> are read. A field is \<open>None\<close> when the key is absent;
  the sample rate is \<open>Some None\<close> when the key is present with the Python value
  \<open>None\<close>.
\<close>

record rhd_result =
  amplifier_data :: "real list list option"
  t_amplifier :: "real list option"
  sample_rate :: "real option option"

subsection \<open>Python and numpy primitives\<close>

definition np_index :: "'a list \<Rightarrow> int \<Rightarrow> exn + 'a" where
  \<comment> \<open>\<open>a[i]\<close>: negative indices count from the end, out of range raises.\<close>
  "np_index xs i =
     (if 0 \<le> i \<and> i < int (length xs) then Inr (xs ! nat i)
      else if - int (length xs) \<le> i \<and> i < 0 then Inr (xs ! nat (i + int (length xs)))
      else Inl IndexError)"

definition py_int :: "real \<Rightarrow> int" where
  \<comment> \<open>\<open>int(x)\<close> of a float truncates towards zero.\<close>
  "py_int x = (if 0 \<le> x then \<lfloor>x\<rfloor> else \<lceil>x\<rceil>)"

definition np_max :: "real list \<Rightarrow> exn + real" where
  \<comment> \<open>\<open>np.max\<close>: raises on a zero-size array, else folds the maximum.\<close>
  "np_max xs = (case xs of [] \<Rightarrow> Inl (ValueError MaxOfEmpty)
                | x # ys \<Rightarrow> Inr (foldl max x ys))"

definition slice_bound :: "nat \<Rightarrow> int \<Rightarrow> nat" where
  \<comment> \<open>How a slice bound is normalised against a length: a negative bound counts
      from the end, and the result is clipped into [0, n].\<close>
  "slice_bound n i = (if i < 0 then nat (max (i + int n) 0) else min (nat i) n)"

definition py_slice :: "'a list \<Rightarrow> int \<Rightarrow> int \<Rightarrow> 'a list" where
  \<comment> \<open>\<open>a[start:end]\<close>; never raises, empty when the bounds cross.\<close>
  "py_slice xs a b =
     (let n = length xs; a' = slice_bound n a; b' = slice_bound n b
      in take (b' - a') (drop a' xs))"

definition np_linspace :: "real \<Rightarrow> real \<Rightarrow> int \<Rightarrow> exn + real list" where
  \<comment> \<open>\<open>np.linspace(start, stop, num)\<close> with the default endpoint.\<close>
  "np_linspace start stop num =
     (if num < 0 then Inl (ValueError LinspaceNegative)
      else if num = 1 then Inr [start]
      else Inr (map (\<lambda>i. start + real i * ((stop - start) / real_of_int (num - 1)))
                    [0 ..< nat num]))"

definition np_array :: "real list list \<Rightarrow> exn + real list list" where
  \<comment> \<open>\<open>np.array\<close> of a list of 1-D arrays: the rows must have one length.
      The empty list gives the 1-D array of shape (0,), kept as \<open>[]\<close>.\<close>
  "np_array rows =
     (case rows of [] \<Rightarrow> Inr []
      | r # rs \<Rightarrow> if list_all (\<lambda>q. length q = length r) rs then Inr rows
                  else Inl (ValueError Inhomogeneous))"

subsection \<open>Threshold Estimator (lines 89 to 95)\<close>

record band =
  max_amplitude :: real
  threshold :: real
  min_height :: real
  max_height :: real

definition threshold_estimator :: "real list \<Rightarrow> real \<Rightarrow> exn + band" where
  "threshold_estimator signal threshold_ratio =
     (case np_max signal of
        Inl e \<Rightarrow> Inl e
      | Inr m \<Rightarrow> Inr \<lparr> max_amplitude = m,
                      threshold = threshold_ratio * m,
                      min_height = (1 / 3) * m,
                      max_height = (1 / 2) * m \<rparr>)"

subsection \<open>Peak Detector (line 98): scipy.signal.find\_peaks\<close>

text \<open>
  \<open>find_peaks(x, height=(hmin, hmax))\<close> first collects the local maxima of \<open>x\<close> and
  then keeps those whose height lies in the closed interval. Its local-maximum scan
  walks \<open>i\<close> from 1 to \<open>len(x) - 2\<close>; where the previous sample is smaller it looks
  ahead over samples equal to \<open>x[i]\<close>, and if the next different sample is smaller it
  records the middle of the flat run, rounded down, and continues after the run.
  The scan of the library, with \<open>i_max = len(x) - 1\<close> and \<open>i\<close> starting at 1:

  \<^verbatim>\<open>while i < i_max:\<close>

  \<^verbatim>\<open>    if x(i - 1) < x(i):\<close>

  \<^verbatim>\<open>        i_ahead = i + 1\<close>

  \<^verbatim>\<open>        while i_ahead < i_max and x(i_ahead) == x(i): i_ahead += 1\<close>

  \<^verbatim>\<open>        if x(i_ahead) < x(i):\<close>

  \<^verbatim>\<open>            record (i + i_ahead - 1) // 2;  i = i_ahead\<close>

  \<^verbatim>\<open>    i += 1\<close>

  The height condition keeps a peak \<open>p\<close> when \<open>hmin <= x(p) <= hmax\<close>.
\<close>

function look_ahead :: "real list \<Rightarrow> real \<Rightarrow> nat \<Rightarrow> nat" where
  "look_ahead x v ia =
     (if ia < length x - 1 \<and> x ! ia = v then look_ahead x v (Suc ia) else ia)"
  by pat_completeness auto
termination
  by (relation "measure (\<lambda>(x, v, ia). length x - 1 - ia)") auto

declare look_ahead.simps [simp del]

lemma look_ahead_ge: "ia \<le> look_ahead x v ia"
proof (induction x v ia rule: look_ahead.induct)
  case (1 x v ia)
  show ?case
  proof (cases "ia < length x - 1 \<and> x ! ia = v")
    case True
    with 1 have "Suc ia \<le> look_ahead x v (Suc ia)" by simp
    moreover from True have "look_ahead x v ia = look_ahead x v (Suc ia)"
      by (subst look_ahead.simps) simp
    ultimately show ?thesis by simp
  next
    case False
    then have "look_ahead x v ia = ia" by (subst look_ahead.simps) auto
    then show ?thesis by simp
  qed
qed

function local_maxima_1d :: "real list \<Rightarrow> nat \<Rightarrow> nat list" where
  "local_maxima_1d x i =
     (if i < length x - 1 then
        (if x ! (i - 1) < x ! i then
           (let i_ahead = look_ahead x (x ! i) (i + 1) in
            if x ! i_ahead < x ! i
            then ((i + (i_ahead - 1)) div 2) # local_maxima_1d x (i_ahead + 1)
            else local_maxima_1d x (i + 1))
         else local_maxima_1d x (i + 1))
      else [])"
  by pat_completeness auto
termination
proof (relation "measure (\<lambda>(x, i). length x - 1 - i)")
  show "wf (measure (\<lambda>(x, i). length x - 1 - i))" by simp
next
  fix x :: "real list" and i xa
  assume "i < length x - 1" "xa = look_ahead x (x ! i) (i + 1)"
  moreover have "i + 1 \<le> look_ahead x (x ! i) (i + 1)" by (rule look_ahead_ge)
  ultimately show "((x, xa + 1), (x, i)) \<in> measure (\<lambda>(x, i). length x - 1 - i)"
    by simp
qed auto

declare local_maxima_1d.simps [simp del]

definition find_peaks :: "real list \<Rightarrow> real \<Rightarrow> real \<Rightarrow> nat list" where
  "find_peaks x hmin hmax =
     filter (\<lambda>p. hmin \<le> x ! p \<and> x ! p \<le> hmax) (local_maxima_1d x 1)"

subsection \<open>Waveform Extractor (lines 102 to 110)\<close>

fun waveform_loop ::
  "real list \<Rightarrow> int \<Rightarrow> int \<Rightarrow> nat list \<Rightarrow> real list list \<Rightarrow> real list list" where
  "waveform_loop signal pre_samples post_samples [] spike_waveforms = spike_waveforms"
| "waveform_loop signal pre_samples post_samples (spike # rest) spike_waveforms =
     (let start = max 0 (int spike - pre_samples);
          end' = min (int (length signal)) (int spike + post_samples)
      in if end' - start = pre_samples + post_samples
         then waveform_loop signal pre_samples post_samples rest
                (spike_waveforms @ [py_slice signal start end'])
         else waveform_loop signal pre_samples post_samples rest spike_waveforms)"

definition waveform_extractor ::
  "real list \<Rightarrow> nat list \<Rightarrow> real \<Rightarrow> real \<Rightarrow> int \<Rightarrow> int
     \<Rightarrow> exn + (real list \<times> real list list)" where
  "waveform_extractor signal spikes pre_time post_time pre_samples post_samples =
     (case np_linspace (- pre_time) post_time (pre_samples + post_samples) of
        Inl e \<Rightarrow> Inl e
      | Inr aligned_time \<Rightarrow>
          (case np_array (waveform_loop signal pre_samples post_samples spikes []) of
             Inl e \<Rightarrow> Inl e
           | Inr spike_waveforms \<Rightarrow> Inr (aligned_time, spike_waveforms)))"

subsection \<open>Feature Reducer (lines 113 to 115): sklearn.decomposition.PCA\<close>

text \<open>
  \<open>PCA(n_components).fit_transform(X)\<close> validates its input before any numeric work:
  the array must be 2-D with at least one row and one column, and an integer
  \<open>n_components\<close> must lie in \<open>[0, min(rows, columns)]\<close>; each violation raises
  \<open>ValueError\<close>. The singular value decomposition itself is floating-point code of
  the library and is a parameter here: a function from \<open>n_components\<close> and the matrix
  to the projected rows and the explained variance ratios.
\<close>

type_synonym pca_solver = "int \<Rightarrow> real list list \<Rightarrow> real list list \<times> real list"

definition pca_fit_transform ::
  "pca_solver \<Rightarrow> int \<Rightarrow> real list list \<Rightarrow> exn + (real list list \<times> real list)" where
  "pca_fit_transform solver n_components X =
     (case X of
        [] \<Rightarrow> Inl (ValueError PCAExpected2D)
      | r # rs \<Rightarrow>
          if length r = 0 then Inl (ValueError PCANoFeatures)
          else if \<not> (0 \<le> n_components
                     \<and> n_components \<le> int (min (length X) (length r)))
          then Inl (ValueError PCANComponents)
          else Inr (solver n_components X))"

definition feature_reducer ::
  "pca_solver \<Rightarrow> int \<Rightarrow> real list list \<Rightarrow> event list
     \<Rightarrow> event list \<times> (exn + (real list list \<times> real list))" where
  "feature_reducer solver n_components spike_waveforms printed =
     (case pca_fit_transform solver n_components spike_waveforms of
        Inl e \<Rightarrow> (printed, Inl e)
      | Inr (spike_features, evr) \<Rightarrow>
          (printed @ [ExplainedVariance evr], Inr (spike_features, evr)))"

subsection \<open>The pipeline\<close>

record outputs =
  out_signal :: "real list"
  out_time :: "real list"
  aligned_time :: "real list"
  spike_waveforms :: "real list list"
  spikes :: "nat list"
  spike_features :: "real list list"
  pca_n_components :: int
  explained_variance_ratio :: "real list"

definition detect_and_reduce ::
  "pca_solver \<Rightarrow> real list \<Rightarrow> real list \<Rightarrow> real \<Rightarrow> real \<Rightarrow> real \<Rightarrow> real \<Rightarrow> int
     \<Rightarrow> event list \<times> (exn + outputs option)" where
  \<comment> \<open>Lines 82 to 117, once signal, time and sample rate have been read.\<close>
  "detect_and_reduce solver signal time sr threshold_ratio pre_time post_time n_components =
     (let pre_samples = py_int ((pre_time / 1000) * sr);
          post_samples = py_int ((post_time / 1000) * sr)
      in case threshold_estimator signal threshold_ratio of
           Inl e \<Rightarrow> ([], Inl e)
         | Inr b \<Rightarrow>
             (let log1 = [UsingThreshold (threshold b) threshold_ratio (max_amplitude b)];
                  spks = find_peaks signal (min_height b) (max_height b);
                  log2 = log1 @ [Detected (length spks) (min_height b) (max_height b)]
              in case waveform_extractor signal spks pre_time post_time
                        pre_samples post_samples of
                   Inl e \<Rightarrow> (log2, Inl e)
                 | Inr (atime, wforms) \<Rightarrow>
                     (case feature_reducer solver n_components wforms log2 of
                        (log3, Inl e) \<Rightarrow> (log3, Inl e)
                      | (log3, Inr (feats, evr)) \<Rightarrow>
                          (log3, Inr (Some \<lparr> out_signal = signal, out_time = time,
                                   aligned_time = atime, spike_waveforms = wforms,
                                   spikes = spks, spike_features = feats,
                                   pca_n_components = n_components,
                                   explained_variance_ratio = evr \<rparr>)))))"

definition extract_analyze_and_plot_spikes ::
  "pca_solver \<Rightarrow> rhd_result \<Rightarrow> int \<Rightarrow> real \<Rightarrow> real \<Rightarrow> real \<Rightarrow> int
     \<Rightarrow> event list \<times> (exn + outputs option)" where
  "extract_analyze_and_plot_spikes solver result channel_index threshold_ratio
       pre_time post_time n_components =
     (case (amplifier_data result, t_amplifier result) of
        (Some table, Some time) \<Rightarrow>
          (case np_index table channel_index of
             Inl e \<Rightarrow> ([], Inl e)
           | Inr signal \<Rightarrow>
               (case sample_rate result of
                  None \<Rightarrow> ([], Inl (KeyError ''sample_rate''))
                | Some None \<Rightarrow> ([], Inl (ValueError SampleRateNone))
                | Some (Some sr) \<Rightarrow>
                    detect_and_reduce solver signal time sr threshold_ratio
                      pre_time post_time n_components))
      | _ \<Rightarrow> ([AmplifierDataNotFound], Inr None))"

subsection \<open>Auxiliary notions used in the statements\<close>

text \<open>
  A flat peak: \<open>s\<close> is the middle, rounded down, of a run \<open>l..r\<close> of equal samples
  that lies strictly inside the signal and whose two outer neighbours are strictly
  smaller. A run of length one is a strict local maximum.
\<close>

definition flat_peak :: "real list \<Rightarrow> nat \<Rightarrow> bool" where
  "flat_peak x s =
     (\<exists>l \<in> {1 .. s}. \<exists>r \<in> {s ..< length x - 1}.
        s = (l + r) div 2
        \<and> (\<forall>j \<in> {l .. r}. x ! j = x ! s)
        \<and> x ! (l - 1) < x ! s \<and> x ! (r + 1) < x ! s)"

text \<open>
  The Waveform Extractor as the specification words it: the candidate window of a spike
  \<open>s\<close> is \<open>[max(0, s - pre), min(N, s + post))\<close>, it is accepted when its length is
  \<open>pre + post\<close>, and the matrix has one row per accepted spike, in the order of the
  spikes, holding the samples of the window.
\<close>

definition window_start :: "int \<Rightarrow> nat \<Rightarrow> int" where
  "window_start pre s = max 0 (int s - pre)"

definition window_end :: "nat \<Rightarrow> int \<Rightarrow> nat \<Rightarrow> int" where
  "window_end N post s = min (int N) (int s + post)"

definition window_accepted :: "nat \<Rightarrow> int \<Rightarrow> int \<Rightarrow> nat \<Rightarrow> bool" where
  "window_accepted N pre post s =
     (window_end N post s - window_start pre s = pre + post)"


fun is_threshold_report :: "event \<Rightarrow> bool" where
  "is_threshold_report (UsingThreshold t r m) = True"
| "is_threshold_report _ = False"

definition forget_time :: "exn + outputs option \<Rightarrow> exn + outputs option" where
  \<comment> \<open>The returned tuple with its time component blanked.\<close>
  "forget_time = map_sum id (map_option (\<lambda>out. out\<lparr>out_time := []\<rparr>))"

text \<open>
  Concrete inputs for evaluating the pipeline: a five-sample recording at 1000 samples
  per second, and a stand-in for the numeric solver that keeps the first
  \<open>n_components\<close> columns and reports zero ratios.
\<close>

definition demo_solver :: pca_solver where
  "demo_solver n X = (map (take (nat n)) X, replicate (nat n) 0)"

definition demo_result :: rhd_result where
  "demo_result = \<lparr> amplifier_data = Some [[0, 5 / 2, 0, 6, 0]],
                   t_amplifier = Some [0, 1, 2, 3, 4],
                   sample_rate = Some (Some 1000) \<rparr>"

section \<open>Properties\<close>

subsection \<open>Threshold Estimator\<close>





subsection \<open>Peak Detector\<close>

lemma look_ahead_le: "ia \<le> length x - 1 \<Longrightarrow> look_ahead x v ia \<le> length x - 1"
proof (induction x v ia rule: look_ahead.induct)
  case (1 x v ia)
  show ?case
  proof (cases "ia < length x - 1 \<and> x ! ia = v")
    case True
    with 1 have "look_ahead x v (Suc ia) \<le> length x - 1" by simp
    moreover from True have "look_ahead x v ia = look_ahead x v (Suc ia)"
      by (subst look_ahead.simps) simp
    ultimately show ?thesis by simp
  next
    case False
    then have "look_ahead x v ia = ia" by (subst look_ahead.simps) auto
    with 1 show ?thesis by simp
  qed
qed

lemma look_ahead_flat: "ia \<le> j \<Longrightarrow> j < look_ahead x v ia \<Longrightarrow> x ! j = v"
proof (induction x v ia rule: look_ahead.induct)
  case (1 x v ia)
  show ?case
  proof (cases "ia < length x - 1 \<and> x ! ia = v")
    case True
    then have eq: "look_ahead x v ia = look_ahead x v (Suc ia)"
      by (subst look_ahead.simps) simp
    show ?thesis
    proof (cases "j = ia")
      case True
      with \<open>ia < length x - 1 \<and> x ! ia = v\<close> show ?thesis by simp
    next
      case False
      with 1 True eq show ?thesis by simp
    qed
  next
    case False
    then have "look_ahead x v ia = ia" by (subst look_ahead.simps) auto
    with 1 show ?thesis by simp
  qed
qed

lemma local_maxima_1d_sound:
  "p \<in> set (local_maxima_1d x i) \<Longrightarrow> 0 < i \<Longrightarrow> i \<le> p \<and> flat_peak x p"
proof (induction x i rule: local_maxima_1d.induct)
  case (1 x i)
  define ia where "ia = look_ahead x (x ! i) (i + 1)"
  show ?case
  proof (cases "i < length x - 1")
    case False
    with "1.prems" show ?thesis by (subst (asm) local_maxima_1d.simps) simp
  next
    case inb: True
    show ?thesis
    proof (cases "x ! (i - 1) < x ! i \<and> x ! ia < x ! i")
      case False
      with inb have "local_maxima_1d x i = local_maxima_1d x (i + 1)"
        by (subst local_maxima_1d.simps) (auto simp: ia_def Let_def)
      with "1.prems" have mem: "p \<in> set (local_maxima_1d x (i + 1))" by simp
      from False have "\<not> x ! (i - 1) < x ! i \<or> (x ! (i - 1) < x ! i \<and> \<not> x ! ia < x ! i)"
        by blast
      then have "i + 1 \<le> p \<and> flat_peak x p"
      proof
        assume "\<not> x ! (i - 1) < x ! i"
        with "1.IH"(3) inb mem show ?thesis by simp
      next
        assume "x ! (i - 1) < x ! i \<and> \<not> x ! ia < x ! i"
        with "1.IH"(2) [OF inb _ ia_def] mem show ?thesis by simp
      qed
      then show ?thesis by simp
    next
      case pk: True
      with inb have unf: "local_maxima_1d x i =
          ((i + (ia - 1)) div 2) # local_maxima_1d x (ia + 1)"
        by (subst local_maxima_1d.simps) (simp add: ia_def Let_def)
      have ge: "i + 1 \<le> ia" unfolding ia_def by (rule look_ahead_ge)
      have le: "ia \<le> length x - 1" unfolding ia_def
        by (rule look_ahead_le) (use inb in simp)
      have flat: "x ! j = x ! i" if "i \<le> j" "j < ia" for j
      proof (cases "j = i")
        case False
        with that have "i + 1 \<le> j" by simp
        with that(2) show ?thesis unfolding ia_def
          using look_ahead_flat [of "i + 1" j x "x ! i"] by simp
      qed simp
      from "1.prems" unf consider "p = (i + (ia - 1)) div 2"
        | "p \<in> set (local_maxima_1d x (ia + 1))" by auto
      then show ?thesis
      proof cases
        case 1
        have ip: "i \<le> p" and pr: "p \<le> ia - 1" using ge 1 by simp_all
        have xp: "x ! p = x ! i" using flat [of p] ip pr ge by simp
        have a: "i \<in> {1 .. p}" using ip \<open>0 < i\<close> by simp
        have b: "ia - 1 \<in> {p ..< length x - 1}" using pr le ge by simp
        have d: "\<forall>j \<in> {i .. ia - 1}. x ! j = x ! p"
        proof
          fix j assume "j \<in> {i .. ia - 1}"
          then have "i \<le> j" "j < ia" using ge by auto
          then have "x ! j = x ! i" by (rule flat)
          with xp show "x ! j = x ! p" by simp
        qed
        have e: "x ! (i - 1) < x ! p" using pk xp by simp
        have f: "x ! (ia - 1 + 1) < x ! p" using pk xp ge by simp
        have "flat_peak x p"
          unfolding flat_peak_def
          by (rule bexI [OF _ a], rule bexI [OF _ b]) (intro conjI 1 d e f)
        with ip show ?thesis by simp
      next
        case 2
        from "1.IH"(1) [OF inb _ ia_def] pk 2
        have "ia + 1 \<le> p \<and> flat_peak x p" by simp
        with ge show ?thesis by simp
      qed
    qed
  qed
qed


lemma local_maxima_1d_lower: "p \<in> set (local_maxima_1d x i) \<Longrightarrow> 0 < i \<Longrightarrow> i \<le> p"
  using local_maxima_1d_sound by blast

lemma local_maxima_1d_sorted: "0 < i \<Longrightarrow> sorted_wrt (<) (local_maxima_1d x i)"
proof (induction x i rule: local_maxima_1d.induct)
  case (1 x i)
  define ia where "ia = look_ahead x (x ! i) (i + 1)"
  show ?case
  proof (cases "i < length x - 1")
    case False
    then show ?thesis by (subst local_maxima_1d.simps) simp
  next
    case inb: True
    show ?thesis
    proof (cases "x ! (i - 1) < x ! i \<and> x ! ia < x ! i")
      case False
      with inb have eq: "local_maxima_1d x i = local_maxima_1d x (i + 1)"
        by (subst local_maxima_1d.simps) (auto simp: ia_def Let_def)
      from False have "\<not> x ! (i - 1) < x ! i \<or> (x ! (i - 1) < x ! i \<and> \<not> x ! ia < x ! i)"
        by blast
      then have "sorted_wrt (<) (local_maxima_1d x (i + 1))"
      proof
        assume "\<not> x ! (i - 1) < x ! i"
        with "1.IH"(3) inb show ?thesis by simp
      next
        assume "x ! (i - 1) < x ! i \<and> \<not> x ! ia < x ! i"
        with "1.IH"(2) [OF inb _ ia_def] show ?thesis by simp
      qed
      with eq show ?thesis by simp
    next
      case pk: True
      with inb have unf: "local_maxima_1d x i =
          ((i + (ia - 1)) div 2) # local_maxima_1d x (ia + 1)"
        by (subst local_maxima_1d.simps) (simp add: ia_def Let_def)
      have ge: "i + 1 \<le> ia" unfolding ia_def by (rule look_ahead_ge)
      from "1.IH"(1) [OF inb _ ia_def] pk
      have tl: "sorted_wrt (<) (local_maxima_1d x (ia + 1))" by simp
      have "(i + (ia - 1)) div 2 < q" if "q \<in> set (local_maxima_1d x (ia + 1))" for q
      proof -
        from that have "ia + 1 \<le> q" by (rule local_maxima_1d_lower) simp
        with ge show ?thesis by simp
      qed
      with tl unf show ?thesis by simp
    qed
  qed
qed

lemma flat_peak_neighbours:
  assumes "flat_peak x s"
  shows "0 < s \<and> s + 1 < length x \<and> x ! (s - 1) \<le> x ! s \<and> x ! (s + 1) \<le> x ! s"
proof -
  from assms obtain l r where lm: "l \<in> {1 .. s}" and rm: "r \<in> {s ..< length x - 1}"
    and flat: "\<forall>j \<in> {l .. r}. x ! j = x ! s"
    and lo: "x ! (l - 1) < x ! s" and hi: "x ! (r + 1) < x ! s"
    unfolding flat_peak_def by blast
  from lm have l: "1 \<le> l" "l \<le> s" by simp_all
  from rm have r: "s \<le> r" "r < length x - 1" by simp_all
  have left: "x ! (s - 1) \<le> x ! s"
  proof (cases "l = s")
    case True
    with lo show ?thesis by simp
  next
    case False
    with l r have "s - 1 \<in> {l .. r}" by auto
    with flat have "x ! (s - 1) = x ! s" by (rule bspec)
    then show ?thesis by simp
  qed
  have right: "x ! (s + 1) \<le> x ! s"
  proof (cases "r = s")
    case True
    with hi show ?thesis by simp
  next
    case False
    with l r have "s + 1 \<in> {l .. r}" by auto
    with flat have "x ! (s + 1) = x ! s" by (rule bspec)
    then show ?thesis by simp
  qed
  from l r left right show ?thesis by auto
qed

text \<open>
  Claim C3, as the code has it. The indices returned by the Peak Detector are strictly
  ascending; each lies strictly inside the signal (never index 0 or N-1), is the middle
  of a flat peak, is at least as high as both immediate neighbours, and has its height
  in the closed band. Strictness with respect to both immediate neighbours holds only
  for runs of length one.
\<close>

theorem find_peaks_sound:
  "sorted_wrt (<) (find_peaks signal hmin hmax)
   \<and> (\<forall>s \<in> set (find_peaks signal hmin hmax).
         0 < s \<and> s + 1 < length signal \<and> flat_peak signal s
         \<and> signal ! (s - 1) \<le> signal ! s \<and> signal ! (s + 1) \<le> signal ! s
         \<and> hmin \<le> signal ! s \<and> signal ! s \<le> hmax)"
proof (intro conjI ballI)
  show "sorted_wrt (<) (find_peaks signal hmin hmax)"
    unfolding find_peaks_def
    by (rule sorted_wrt_filter) (rule local_maxima_1d_sorted, simp)
next
  fix s assume s: "s \<in> set (find_peaks signal hmin hmax)"
  then have "s \<in> set (local_maxima_1d signal 1)" by (simp add: find_peaks_def)
  then have fp: "flat_peak signal s"
    using local_maxima_1d_sound [of s signal 1] by simp
  note nb = flat_peak_neighbours [OF fp]
  show "0 < s" "s + 1 < length signal" "flat_peak signal s"
    "signal ! (s - 1) \<le> signal ! s" "signal ! (s + 1) \<le> signal ! s"
    using nb fp by simp_all
  show "hmin \<le> signal ! s" "signal ! s \<le> hmax"
    using s by (simp_all add: find_peaks_def)
qed

theorem find_peaks_sound_witness:
  "find_peaks [0, 5 / 2, 0, 6, 0] 2 3 = [1]
   \<and> flat_peak [0, 5 / 2, 0, 6, 0] 1
   \<and> (0::real) \<le> 5 / 2 \<and> (2::real) \<le> 5 / 2 \<and> (5 / 2 :: real) \<le> 3"
proof -
  have fp: "find_peaks [0, 5 / 2, 0, 6, 0] 2 3 = [1]" by code_simp
  show ?thesis
    using find_peaks_sound [of "[0, 5 / 2, 0, 6, 0]" 2 3] unfolding fp by simp
qed

text \<open>
  The claim as stated fails on a plateau: for the signal 0, 2, 2, 0, 6 the band is
  [2, 3] and index 1 is reported, although sample 2 is not smaller than sample 1.
\<close>

theorem plateau_peak_not_strict:
  "threshold_estimator [0, 2, 2, 0, 6] (3 / 10) =
     Inr \<lparr> max_amplitude = 6, threshold = 9 / 5, min_height = 2, max_height = 3 \<rparr>
   \<and> find_peaks [0, 2, 2, 0, 6] 2 3 = [1]
   \<and> \<not> ([0, 2, 2, 0, 6 :: real] ! (1 + 1) < [0, 2, 2, 0, 6] ! 1)"
  by code_simp

subsection \<open>Waveform Extractor\<close>

lemma waveform_loop_eq:
  "waveform_loop signal pre post spks acc =
     acc @ map (\<lambda>s. py_slice signal (window_start pre s)
                        (window_end (length signal) post s))
               (filter (window_accepted (length signal) pre post) spks)"
  by (induction spks arbitrary: acc)
     (simp_all add: Let_def window_accepted_def window_start_def window_end_def)



lemma py_slice_same: "py_slice xs a a = []"
  by (simp add: py_slice_def)

lemma np_array_uniform:
  "\<forall>row \<in> set rows. length row = k \<Longrightarrow> np_array rows = Inr rows"
  by (cases rows) (auto simp: np_array_def list_all_iff)










lemma zero_window_rows:
  assumes "pre + post = 0"
  shows "waveform_loop signal pre post spks []
           = replicate (length (filter (window_accepted (length signal) pre post) spks)) []"
proof -
  have "py_slice signal (window_start pre s) (window_end (length signal) post s) = []"
    if "window_accepted (length signal) pre post s" for s
  proof -
    from that assms have "window_end (length signal) post s = window_start pre s"
      by (simp add: window_accepted_def)
    then show ?thesis by (simp add: py_slice_same)
  qed
  then have "map (\<lambda>s. py_slice signal (window_start pre s)
                        (window_end (length signal) post s))
               (filter (window_accepted (length signal) pre post) spks)
           = map (\<lambda>s. []) (filter (window_accepted (length signal) pre post) spks)"
    by (intro map_cong) simp_all
  then show ?thesis by (simp add: waveform_loop_eq map_replicate_const)
qed

text \<open>
  Claim C5, as the code has it. When \<open>pre_samples + post_samples\<close> is negative the
  extractor fails in \<open>np.linspace\<close> and produces no matrix. When the sum is zero every
  accepted window is empty, so the matrix has one row of length zero per accepted
  spike; with both counts zero every spike index up to N is accepted, and the matrix
  has as many rows as there are spikes.
\<close>

theorem zero_length_windows:
  "(pre_samples + post_samples < 0 \<longrightarrow>
      waveform_extractor signal spks pre_time post_time pre_samples post_samples
        = Inl (ValueError LinspaceNegative))
   \<and> (pre_samples + post_samples = 0 \<longrightarrow>
      waveform_extractor signal spks pre_time post_time pre_samples post_samples
        = Inr ([], replicate
             (length (filter (window_accepted (length signal) pre_samples post_samples) spks))
             []))
   \<and> (pre_samples = 0 \<and> post_samples = 0 \<and> (\<forall>s \<in> set spks. s \<le> length signal) \<longrightarrow>
      waveform_extractor signal spks pre_time post_time pre_samples post_samples
        = Inr ([], replicate (length spks) []))"
proof (intro conjI impI)
  assume "pre_samples + post_samples < 0"
  then show "waveform_extractor signal spks pre_time post_time pre_samples post_samples
        = Inl (ValueError LinspaceNegative)"
    by (simp add: waveform_extractor_def np_linspace_def)
next
  assume z: "pre_samples + post_samples = 0"
  have "np_array (replicate n []) = Inr (replicate n [])" for n
    by (rule np_array_uniform [of _ 0]) simp
  with z show "waveform_extractor signal spks pre_time post_time pre_samples post_samples
        = Inr ([], replicate
             (length (filter (window_accepted (length signal) pre_samples post_samples) spks))
             [])"
    by (simp add: waveform_extractor_def np_linspace_def zero_window_rows)
next
  assume h: "pre_samples = 0 \<and> post_samples = 0 \<and> (\<forall>s \<in> set spks. s \<le> length signal)"
  then have "filter (window_accepted (length signal) pre_samples post_samples) spks = spks"
    by (auto simp: window_accepted_def window_start_def window_end_def filter_id_conv)
  moreover have "np_array (replicate n []) = Inr (replicate n [])" for n
    by (rule np_array_uniform [of _ 0]) simp
  ultimately show "waveform_extractor signal spks pre_time post_time pre_samples post_samples
        = Inr ([], replicate (length spks) [])"
    using h by (simp add: waveform_extractor_def np_linspace_def zero_window_rows)
qed

theorem zero_length_windows_witness:
  "waveform_extractor [0, 5 / 2, 0, 6, 0] [1] 0 0 (- 1) 0 = Inl (ValueError LinspaceNegative)
   \<and> waveform_extractor [0, 5 / 2, 0, 6, 0] [1, 3] 0 0 2 (- 2) = Inr ([], [[]])
   \<and> waveform_extractor [0, 5 / 2, 0, 6, 0] [1, 3] 0 0 0 0 = Inr ([], [[], []])"
proof -
  have r1: "waveform_extractor [0, 5 / 2, 0, 6, 0] [1] 0 0 (- 1) 0
              = Inl (ValueError LinspaceNegative)"
    by code_simp
  have r2: "waveform_extractor [0, 5 / 2, 0, 6, 0] [1, 3] 0 0 2 (- 2) = Inr ([], [[]])"
    by code_simp
  have r3: "waveform_extractor [0, 5 / 2, 0, 6, 0] [1, 3] 0 0 0 0 = Inr ([], [[], []])"
    by code_simp
  show ?thesis
    using zero_length_windows [of "- 1" 0 "[0, 5 / 2, 0, 6, 0]" "[1]" 0 0]
      zero_length_windows [of 2 "- 2" "[0, 5 / 2, 0, 6, 0]" "[1, 3]" 0 0]
      zero_length_windows [of 0 0 "[0, 5 / 2, 0, 6, 0]" "[1, 3]" 0 0]
      r1 r2 r3
    by simp
qed

text \<open>
  The claim as stated fails for zero pre and post times: the one detected spike of the
  signal 0, 2.5, 0, 6, 0 yields one row, of length zero.
\<close>

theorem zero_window_keeps_rows:
  "(0::int) + 0 \<le> 0
   \<and> find_peaks [0, 5 / 2, 0, 6, 0] 2 3 = [1]
   \<and> waveform_extractor [0, 5 / 2, 0, 6, 0] [1] 0 0 0 0 = Inr ([], [[]])
   \<and> length [[] :: real list] = 1"
  by code_simp

subsection \<open>Pipeline\<close>

text \<open>
  Claim C8. On an empty signal the Threshold Estimator fails with the ValueError of
  \<open>np.max\<close>; the pipeline stops there, having printed nothing and run no later stage.
\<close>

theorem empty_signal_fails:
  "threshold_estimator [] threshold_ratio = Inl (ValueError MaxOfEmpty)
   \<and> detect_and_reduce solver [] time sr threshold_ratio pre_time post_time n_components
       = ([], Inl (ValueError MaxOfEmpty))"
  by (simp add: threshold_estimator_def np_max_def detect_and_reduce_def)

lemma threshold_estimator_ratio_cases:
  "(\<exists>e. \<forall>r. threshold_estimator signal r = Inl e)
   \<or> (\<exists>m. \<forall>r. threshold_estimator signal r =
          Inr \<lparr> max_amplitude = m, threshold = r * m,
                min_height = (1 / 3) * m, max_height = (1 / 2) * m \<rparr>)"
  by (cases "np_max signal") (simp_all add: threshold_estimator_def)

text \<open>
  Claim C2. For any two threshold ratios the pipeline returns the same result (the same
  spike indices, waveform matrix, feature matrix and explained variance ratios, or the
  same error), and prints the same messages apart from the threshold report.
\<close>

theorem threshold_ratio_noninterference:
  "snd (extract_analyze_and_plot_spikes solver result channel_index r1
          pre_time post_time n_components)
   = snd (extract_analyze_and_plot_spikes solver result channel_index r2
          pre_time post_time n_components)
   \<and> filter (\<lambda>ev. \<not> is_threshold_report ev)
        (fst (extract_analyze_and_plot_spikes solver result channel_index r1
                pre_time post_time n_components))
     = filter (\<lambda>ev. \<not> is_threshold_report ev)
        (fst (extract_analyze_and_plot_spikes solver result channel_index r2
                pre_time post_time n_components))"
proof -
  have core: "snd (detect_and_reduce solver signal time sr r1 pre_time post_time n_components)
      = snd (detect_and_reduce solver signal time sr r2 pre_time post_time n_components)
    \<and> filter (\<lambda>ev. \<not> is_threshold_report ev)
        (fst (detect_and_reduce solver signal time sr r1 pre_time post_time n_components))
      = filter (\<lambda>ev. \<not> is_threshold_report ev)
        (fst (detect_and_reduce solver signal time sr r2 pre_time post_time n_components))"
    for signal time sr
    using threshold_estimator_ratio_cases [of signal]
    by (auto simp: detect_and_reduce_def feature_reducer_def Let_def
             split: sum.splits prod.splits)
  show ?thesis
    using core
    by (simp add: extract_analyze_and_plot_spikes_def split: option.splits sum.splits)
qed


theorem threshold_ratio_noninterference_witness:
  "snd (extract_analyze_and_plot_spikes demo_solver demo_result 0 (3 / 10) 1 2 1)
     = snd (extract_analyze_and_plot_spikes demo_solver demo_result 0 (1 / 2) 1 2 1)
   \<and> fst (extract_analyze_and_plot_spikes demo_solver demo_result 0 (3 / 10) 1 2 1)
     = [UsingThreshold (9 / 5) (3 / 10) 6, Detected 1 2 3, ExplainedVariance [0]]
   \<and> fst (extract_analyze_and_plot_spikes demo_solver demo_result 0 (1 / 2) 1 2 1)
     = [UsingThreshold 3 (1 / 2) 6, Detected 1 2 3, ExplainedVariance [0]]"
proof -
  have l1: "fst (extract_analyze_and_plot_spikes demo_solver demo_result 0 (3 / 10) 1 2 1)
     = [UsingThreshold (9 / 5) (3 / 10) 6, Detected 1 2 3, ExplainedVariance [0]]"
    by code_simp
  have l2: "fst (extract_analyze_and_plot_spikes demo_solver demo_result 0 (1 / 2) 1 2 1)
     = [UsingThreshold 3 (1 / 2) 6, Detected 1 2 3, ExplainedVariance [0]]"
    by code_simp
  show ?thesis
    using threshold_ratio_noninterference [where solver = demo_solver
        and result = demo_result and channel_index = 0 and ?r1.0 = "3 / 10"
        and ?r2.0 = "1 / 2" and pre_time = 1 and post_time = 2 and n_components = 1]
      l1 l2
    by simp
qed

lemma detect_and_reduce_time:
  "fst (detect_and_reduce solver signal t1 sr r pre_time post_time n)
     = fst (detect_and_reduce solver signal t2 sr r pre_time post_time n)
   \<and> forget_time (snd (detect_and_reduce solver signal t1 sr r pre_time post_time n))
     = forget_time (snd (detect_and_reduce solver signal t2 sr r pre_time post_time n))
   \<and> (\<forall>out. snd (detect_and_reduce solver signal t1 sr r pre_time post_time n)
               = Inr (Some out) \<longrightarrow> out_time out = t1 \<and> out_signal out = signal)"
  by (auto simp: detect_and_reduce_def forget_time_def Let_def
           split: sum.splits prod.splits)

text \<open>
  Claim C10. With any two time vectors in the input, the pipeline prints the same
  messages and returns the same result except for the time component of the returned
  tuple, which is the input time vector unchanged.
\<close>

theorem time_vector_independence:
  "fst (extract_analyze_and_plot_spikes solver (result\<lparr>t_amplifier := Some t1\<rparr>)
          channel_index threshold_ratio pre_time post_time n_components)
   = fst (extract_analyze_and_plot_spikes solver (result\<lparr>t_amplifier := Some t2\<rparr>)
          channel_index threshold_ratio pre_time post_time n_components)
   \<and> forget_time (snd (extract_analyze_and_plot_spikes solver
          (result\<lparr>t_amplifier := Some t1\<rparr>)
          channel_index threshold_ratio pre_time post_time n_components))
     = forget_time (snd (extract_analyze_and_plot_spikes solver
          (result\<lparr>t_amplifier := Some t2\<rparr>)
          channel_index threshold_ratio pre_time post_time n_components))
   \<and> (\<forall>out. snd (extract_analyze_and_plot_spikes solver
          (result\<lparr>t_amplifier := Some t1\<rparr>)
          channel_index threshold_ratio pre_time post_time n_components) = Inr (Some out)
        \<longrightarrow> out_time out = t1)"
  using detect_and_reduce_time [of solver _ t1 _ threshold_ratio pre_time post_time n_components t2]
  by (simp add: extract_analyze_and_plot_spikes_def forget_time_def
           split: option.splits sum.splits)

theorem time_vector_independence_witness:
  "snd (extract_analyze_and_plot_spikes demo_solver
          (demo_result\<lparr>t_amplifier := Some [0, 1, 2, 3, 4]\<rparr>) 0 (3 / 10) 1 2 1)
     = Inr (Some \<lparr> out_signal = [0, 5 / 2, 0, 6, 0], out_time = [0, 1, 2, 3, 4],
                    aligned_time = [- 1, 1 / 2, 2], spike_waveforms = [[0, 5 / 2, 0]],
                    spikes = [1], spike_features = [[0]], pca_n_components = 1,
                    explained_variance_ratio = [0] \<rparr>)
   \<and> fst (extract_analyze_and_plot_spikes demo_solver
          (demo_result\<lparr>t_amplifier := Some [0, 1, 2, 3, 4]\<rparr>) 0 (3 / 10) 1 2 1)
     = fst (extract_analyze_and_plot_spikes demo_solver
          (demo_result\<lparr>t_amplifier := Some [7, 8, 9]\<rparr>) 0 (3 / 10) 1 2 1)
   \<and> forget_time (snd (extract_analyze_and_plot_spikes demo_solver
          (demo_result\<lparr>t_amplifier := Some [0, 1, 2, 3, 4]\<rparr>) 0 (3 / 10) 1 2 1))
     = forget_time (snd (extract_analyze_and_plot_spikes demo_solver
          (demo_result\<lparr>t_amplifier := Some [7, 8, 9]\<rparr>) 0 (3 / 10) 1 2 1))"
proof -
  have run: "snd (extract_analyze_and_plot_spikes demo_solver
          (demo_result\<lparr>t_amplifier := Some [0, 1, 2, 3, 4]\<rparr>) 0 (3 / 10) 1 2 1)
     = Inr (Some \<lparr> out_signal = [0, 5 / 2, 0, 6, 0], out_time = [0, 1, 2, 3, 4],
                    aligned_time = [- 1, 1 / 2, 2], spike_waveforms = [[0, 5 / 2, 0]],
                    spikes = [1], spike_features = [[0]], pca_n_components = 1,
                    explained_variance_ratio = [0] \<rparr>)"
    by code_simp
  show ?thesis
    using run time_vector_independence [where solver = demo_solver
        and result = demo_result and ?t1.0 = "[0, 1, 2, 3, 4]" and ?t2.0 = "[7, 8, 9]"
        and channel_index = 0 and threshold_ratio = "3 / 10" and pre_time = 1
        and post_time = 2 and n_components = 1]
    by simp
qed

text \<open>
  Claim C9, as the code has it. When a required key is absent the function prints a
  message and returns nothing, without raising. When both keys are present and the
  sample rate is absent or null, the function raises before any stage runs: KeyError
  for an absent key and ValueError for a null value, once the channel has been read.
\<close>

theorem missing_precondition_behaviour:
  "(amplifier_data result = None \<or> t_amplifier result = None \<longrightarrow>
      extract_analyze_and_plot_spikes solver result channel_index threshold_ratio
        pre_time post_time n_components = ([AmplifierDataNotFound], Inr None))
   \<and> (amplifier_data result \<noteq> None \<and> t_amplifier result \<noteq> None
        \<and> (sample_rate result = None \<or> sample_rate result = Some None) \<longrightarrow>
      (\<exists>e. extract_analyze_and_plot_spikes solver result channel_index threshold_ratio
        pre_time post_time n_components = ([], Inl e)))
   \<and> (amplifier_data result = Some table \<and> t_amplifier result \<noteq> None
        \<and> np_index table channel_index = Inr signal \<longrightarrow>
      (sample_rate result = None \<longrightarrow>
         extract_analyze_and_plot_spikes solver result channel_index threshold_ratio
           pre_time post_time n_components = ([], Inl (KeyError ''sample_rate'')))
      \<and> (sample_rate result = Some None \<longrightarrow>
         extract_analyze_and_plot_spikes solver result channel_index threshold_ratio
           pre_time post_time n_components = ([], Inl (ValueError SampleRateNone))))"
  by (auto simp: extract_analyze_and_plot_spikes_def split: option.splits sum.splits)

theorem missing_precondition_behaviour_witness:
  "t_amplifier (demo_result\<lparr>t_amplifier := None\<rparr>) = None
   \<and> extract_analyze_and_plot_spikes demo_solver (demo_result\<lparr>t_amplifier := None\<rparr>)
        0 (3 / 10) 1 2 2 = ([AmplifierDataNotFound], Inr None)
   \<and> sample_rate (demo_result\<lparr>sample_rate := None\<rparr>) = None
   \<and> extract_analyze_and_plot_spikes demo_solver (demo_result\<lparr>sample_rate := None\<rparr>)
        0 (3 / 10) 1 2 2 = ([], Inl (KeyError ''sample_rate''))
   \<and> sample_rate (demo_result\<lparr>sample_rate := Some None\<rparr>) = Some None
   \<and> extract_analyze_and_plot_spikes demo_solver (demo_result\<lparr>sample_rate := Some None\<rparr>)
        0 (3 / 10) 1 2 2 = ([], Inl (ValueError SampleRateNone))"
  using
    missing_precondition_behaviour [where result = "demo_result\<lparr>t_amplifier := None\<rparr>"
      and solver = demo_solver and channel_index = 0 and threshold_ratio = "3 / 10"
      and pre_time = 1 and post_time = 2 and n_components = 2
      and table = "[[0, 5 / 2, 0, 6, 0]]" and signal = "[0, 5 / 2, 0, 6, 0]"]
    missing_precondition_behaviour [where result = "demo_result\<lparr>sample_rate := None\<rparr>"
      and solver = demo_solver and channel_index = 0 and threshold_ratio = "3 / 10"
      and pre_time = 1 and post_time = 2 and n_components = 2
      and table = "[[0, 5 / 2, 0, 6, 0]]" and signal = "[0, 5 / 2, 0, 6, 0]"]
    missing_precondition_behaviour [where result = "demo_result\<lparr>sample_rate := Some None\<rparr>"
      and solver = demo_solver and channel_index = 0 and threshold_ratio = "3 / 10"
      and pre_time = 1 and post_time = 2 and n_components = 2
      and table = "[[0, 5 / 2, 0, 6, 0]]" and signal = "[0, 5 / 2, 0, 6, 0]"]
  by (simp add: demo_result_def np_index_def)

text \<open>
  The claim as stated fails for an absent key: the call returns normally.
\<close>

theorem missing_key_returns_without_error:
  "extract_analyze_and_plot_spikes demo_solver (demo_result\<lparr>amplifier_data := None\<rparr>)
     0 (3 / 10) 1 2 2 = ([AmplifierDataNotFound], Inr None)"
  by (simp add: extract_analyze_and_plot_spikes_def demo_result_def)

subsection \<open>Feature Reducer\<close>

text \<open>
  Claim C6. On a waveform matrix with no rows, or with fewer rows or columns than
  \<open>n_components\<close>, the Feature Reducer fails with a ValueError raised by the input
  validation of PCA; nothing is printed by the failing stage, so the log it was given
  comes back unchanged.
\<close>

theorem feature_reducer_insufficient_data:
  assumes "\<forall>row \<in> set X. length row = W"
      and "length X = 0 \<or> n_components > int (min (length X) W)"
  shows "\<exists>origin. feature_reducer solver n_components X printed
                    = (printed, Inl (ValueError origin))"
proof (cases X)
  case Nil
  then show ?thesis by (simp add: feature_reducer_def pca_fit_transform_def)
next
  case (Cons r rs)
  with assms(1) have "length r = W" by simp
  with Cons assms(2) show ?thesis
    by (simp add: feature_reducer_def pca_fit_transform_def)
qed

theorem feature_reducer_insufficient_data_witness:
  "length [0, 5 / 2, 0 :: real] = 3
   \<and> (2 > int (min (length [[0, 5 / 2, 0 :: real]]) 3))
   \<and> feature_reducer demo_solver 2 [[0, 5 / 2, 0]] []
       = ([], Inl (ValueError PCANComponents))
   \<and> feature_reducer demo_solver 2 [] [] = ([], Inl (ValueError PCAExpected2D))"
  using feature_reducer_insufficient_data [where X = "[[0, 5 / 2, 0]]" and W = 3
      and n_components = 2 and solver = demo_solver and printed = "[]"]
    feature_reducer_insufficient_data [where X = "[]" and W = 3
      and n_components = 2 and solver = demo_solver and printed = "[]"]
  by (simp add: feature_reducer_def pca_fit_transform_def)

end
